theory Spec2Isabelle
  imports Complex_Main "HOL-Library.Word" "HOL-Library.Sublist"
begin

unbundle bit_operations_syntax

section \<open>Data model of pathtrace.cu\<close>

text \<open>
  The kernels of \<^verbatim>\<open>src/pathtrace.cu\<close> are embedded as functions on lists: a device
  array is a list, a kernel launch is the map of its thread body over the indices the
  grid covers, and the host function \<^verbatim>\<open>pathtrace\<close> threads the device arrays through
  its depth loop. A \<^verbatim>\<open>float\<close> is modelled as a \<open>real\<close>: the properties below depend on
  the order of hit distances and on componentwise products, not on rounding.
  A 32-bit \<^verbatim>\<open>int\<close> that only counts or indexes is a \<open>nat\<close>; the bounce budget and
  the depth counter are \<open>int\<close>; the hashed seed is a \<open>32 word\<close>.
\<close>

datatype vec3 = Vec3 (vx: real) (vy: real) (vz: real)

definition vzero :: vec3 where
  "vzero = Vec3 0 0 0"

fun vadd :: "vec3 \<Rightarrow> vec3 \<Rightarrow> vec3" where
  "vadd (Vec3 a b c) (Vec3 d e f) = Vec3 (a + d) (b + e) (c + f)"

fun vsub :: "vec3 \<Rightarrow> vec3 \<Rightarrow> vec3" where
  "vsub (Vec3 a b c) (Vec3 d e f) = Vec3 (a - d) (b - e) (c - f)"

text \<open>\<^verbatim>\<open>v * s\<close> for a vector and a float.\<close>

fun vscale :: "vec3 \<Rightarrow> real \<Rightarrow> vec3" where
  "vscale (Vec3 a b c) s = Vec3 (a * s) (b * s) (c * s)"

text \<open>\<^verbatim>\<open>v * w\<close> for two vectors: glm multiplies componentwise.\<close>

fun vmul :: "vec3 \<Rightarrow> vec3 \<Rightarrow> vec3" where
  "vmul (Vec3 a b c) (Vec3 d e f) = Vec3 (a * d) (b * e) (c * f)"

text \<open>\<^verbatim>\<open>v[i]\<close> as a read and as a write; the source only uses \<^verbatim>\<open>iter % 3\<close> as index.\<close>

fun vget :: "vec3 \<Rightarrow> nat \<Rightarrow> real" where
  "vget (Vec3 a b c) i = (if i = 0 then a else if i = 1 then b else c)"

fun vset :: "vec3 \<Rightarrow> nat \<Rightarrow> real \<Rightarrow> vec3" where
  "vset (Vec3 a b c) i r =
     (if i = 0 then Vec3 r b c else if i = 1 then Vec3 a r c else Vec3 a b r)"

definition vdot :: "vec3 \<Rightarrow> vec3 \<Rightarrow> real" where
  "vdot v w = vx v * vx w + vy v * vy w + vz v * vz w"

definition glm_normalize :: "vec3 \<Rightarrow> vec3" where
  "glm_normalize v = vscale v (1 / sqrt (vdot v v))"

record Ray =
  origin :: vec3
  direction :: vec3

record PathSegment =
  ray :: Ray
  color :: vec3
  pixelIndex :: nat
  remainingBounces :: int

record ShadeableIntersection =
  isec_t :: real
  surfaceNormal :: vec3
  materialId :: nat

text \<open>
  The two primitive kinds the intersection kernel dispatches on. What else a \<^verbatim>\<open>Geom\<close>
  holds (its transforms, its motion) is declared in a header and stays abstract: \<open>'g\<close>.
\<close>

datatype GeomType = SPHERE | CUBE

record 'g Geom =
  gtype :: GeomType
  materialid :: nat
  shape :: 'g

record Dispersion =
  hasDispersion :: bool
  indexOfRefraction :: vec3

record Material =
  color :: vec3
  emittance :: real
  hasReflective :: bool
  hasRefractive :: bool
  indexOfRefraction :: real
  roughness :: real
  dispersion :: Dispersion

record Camera =
  resolution_x :: nat
  resolution_y :: nat
  position :: vec3
  view :: vec3
  up :: vec3
  right :: vec3
  pixelLength_x :: real
  pixelLength_y :: real
  exposure :: real

record 'g Scene =
  state_camera :: Camera
  state_traceDepth :: int
  state_image :: "vec3 list"
  geoms :: "'g Geom list"
  materials :: "Material list"

text \<open>
  What the file takes from its headers and from thrust, as parameters: the hash of
  \<^verbatim>\<open>utilities.h\<close>, the draws of a \<^verbatim>\<open>uniform_real_distribution\<close> over an engine seeded
  with a given word (\<open>u_real E a b h k\<close> is draw number \<open>k\<close> in the range from \<open>a\<close> to
  \<open>b\<close>), the two intersection tests (returning the distance, the hit point and the
  normal they write), \<^verbatim>\<open>scatterRay\<close>, \<^verbatim>\<open>Geom::update\<close>, and the compile-time switch
  \<^verbatim>\<open>SORT_BY_MATERIAL\<close>. The switches \<^verbatim>\<open>AA\<close> and \<^verbatim>\<open>DOF\<close> are taken as the file sets
  them: antialiasing on, depth of field off.
\<close>

record 'g env =
  utilhash :: "32 word \<Rightarrow> 32 word"
  u_real :: "real \<Rightarrow> real \<Rightarrow> 32 word \<Rightarrow> nat \<Rightarrow> real"
  boxIntersectionTest :: "'g Geom \<Rightarrow> Ray \<Rightarrow> real \<times> vec3 \<times> vec3"
  sphereIntersectionTest :: "'g Geom \<Rightarrow> Ray \<Rightarrow> real \<times> vec3 \<times> vec3"
  scatterRay :: "PathSegment \<Rightarrow> vec3 \<Rightarrow> vec3 \<Rightarrow> bool \<Rightarrow> bool \<Rightarrow> real \<Rightarrow> vec3 \<Rightarrow> real
                   \<Rightarrow> 32 word \<Rightarrow> PathSegment"
  geom_update :: "'g Geom \<Rightarrow> real \<Rightarrow> 'g Geom"
  SORT_BY_MATERIAL :: bool

text \<open>
  The device buffers (the file's static pointers) and the two locals of \<^verbatim>\<open>pathtrace\<close>
  that the depth loop carries.
\<close>

record 'g state =
  dev_image :: "vec3 list"
  dev_geoms :: "'g Geom list"
  dev_paths :: "PathSegment list"
  dev_intersections :: "ShadeableIntersection list"
  dev_hasIntersection :: "bool list"
  depth :: int
  num_paths :: nat

definition pixelcount :: "Camera \<Rightarrow> nat" where
  "pixelcount cam = resolution_x cam * resolution_y cam"

definition zero_intersection :: ShadeableIntersection where
  "zero_intersection = \<lparr>isec_t = 0, surfaceNormal = vzero, materialId = 0\<rparr>"

text \<open>The value \<^verbatim>\<open>cudaMalloc\<close> leaves in \<^verbatim>\<open>dev_paths\<close> is never read; a fixed filler stands for it.\<close>

definition blank_path :: PathSegment where
  "blank_path = \<lparr>ray = \<lparr>origin = vzero, direction = vzero\<rparr>, color = vzero,
                  pixelIndex = 0, remainingBounces = 0\<rparr>"

section \<open>Seeding\<close>

definition makeSeededRandomEngine :: "'g env \<Rightarrow> int \<Rightarrow> int \<Rightarrow> int \<Rightarrow> 32 word" where
  "makeSeededRandomEngine E iter index dpth =
     utilhash E (push_bit 31 1 OR push_bit 22 (word_of_int dpth) OR word_of_int iter)
       XOR utilhash E (word_of_int index)"

section \<open>Session set-up\<close>

definition pathtraceInit :: "'g Scene \<Rightarrow> 'g state" where
  "pathtraceInit scene =
     (let n = pixelcount (state_camera scene) in
      \<lparr>dev_image = replicate n vzero,
       dev_geoms = geoms scene,
       dev_paths = replicate n blank_path,
       dev_intersections = replicate n zero_intersection,
       dev_hasIntersection = replicate n False,
       depth = 0, num_paths = 0\<rparr>)"


section \<open>Ray generation\<close>

definition generateRayFromCamera_thread ::
  "'g env \<Rightarrow> Camera \<Rightarrow> nat \<Rightarrow> int \<Rightarrow> nat \<Rightarrow> nat \<Rightarrow> PathSegment" where
  "generateRayFromCamera_thread E cam iter traceDepth x y =
     (let index = x + y * resolution_x cam;
          rng = makeSeededRandomEngine E (int iter) (int index) traceDepth;
          dx = u_real E (- 0.5) 0.5 rng 0;
          dy = u_real E (- 0.5) 0.5 rng 1
      in \<lparr>ray = \<lparr>origin = position cam,
                 direction = glm_normalize
                   (vsub (vsub (view cam)
                      (vscale (vscale (right cam) (pixelLength_x cam))
                         (real x - real (resolution_x cam) * 0.5 + dx)))
                      (vscale (vscale (up cam) (pixelLength_y cam))
                         (real y - real (resolution_y cam) * 0.5 + dy)))\<rparr>,
          color = Vec3 1 1 1,
          pixelIndex = index,
          remainingBounces = traceDepth\<rparr>)"

text \<open>The 2D grid covers every pixel, so every element of \<^verbatim>\<open>dev_paths\<close> is rewritten.\<close>

definition generateRayFromCamera :: "'g env \<Rightarrow> Camera \<Rightarrow> nat \<Rightarrow> int \<Rightarrow> PathSegment list" where
  "generateRayFromCamera E cam iter traceDepth =
     map (\<lambda>index. generateRayFromCamera_thread E cam iter traceDepth
                     (index mod resolution_x cam) (index div resolution_x cam))
         [0..<pixelcount cam]"

section \<open>Intersection\<close>

definition FLT_MAX :: real where
  "FLT_MAX = 340282346638528859811704183484516925440"

definition intersectionTest :: "'g env \<Rightarrow> 'g Geom \<Rightarrow> Ray \<Rightarrow> real \<times> vec3 \<times> vec3" where
  "intersectionTest E geom r =
     (case gtype geom of
        CUBE \<Rightarrow> boxIntersectionTest E geom r
      | SPHERE \<Rightarrow> sphereIntersectionTest E geom r)"

text \<open>
  The loop over the primitives, from index \<open>i\<close> on, carrying \<^verbatim>\<open>t_min\<close>,
  \<^verbatim>\<open>hit_geom_index\<close> and \<^verbatim>\<open>normal\<close>.
\<close>

fun geoms_loop ::
  "'g env \<Rightarrow> Ray \<Rightarrow> 'g Geom list \<Rightarrow> nat \<Rightarrow> real \<times> int \<times> vec3 \<Rightarrow> real \<times> int \<times> vec3" where
  "geoms_loop E r [] i acc = acc"
| "geoms_loop E r (geom # gs) i (t_min, hit_geom_index, normal) =
     (case intersectionTest E geom r of
        (t, tmp_intersect, tmp_normal) \<Rightarrow>
          geoms_loop E r gs (Suc i)
            (if t > 0 \<and> t_min > t then (t, int i, tmp_normal)
             else (t_min, hit_geom_index, normal)))"

definition computeIntersections_thread ::
  "'g env \<Rightarrow> PathSegment \<Rightarrow> 'g Geom list \<Rightarrow> nat \<Rightarrow> ShadeableIntersection
     \<Rightarrow> ShadeableIntersection \<times> bool" where
  "computeIntersections_thread E pathSegment gs geoms_size isec =
     (case geoms_loop E (ray pathSegment) (take geoms_size gs) 0 (FLT_MAX, - 1, vzero) of
        (t_min, hit_geom_index, normal) \<Rightarrow>
          if hit_geom_index = - 1 then (isec\<lparr>isec_t := - 1\<rparr>, False)
          else (isec\<lparr>isec_t := t_min,
                      materialId := materialid (gs ! nat hit_geom_index),
                      surfaceNormal := normal\<rparr>, True))"

definition computeIntersections ::
  "'g env \<Rightarrow> int \<Rightarrow> nat \<Rightarrow> PathSegment list \<Rightarrow> 'g Geom list \<Rightarrow> nat
     \<Rightarrow> ShadeableIntersection list \<Rightarrow> bool list
     \<Rightarrow> ShadeableIntersection list \<times> bool list" where
  "computeIntersections E dpth n pathSegments gs geoms_size intersections hasIntersection =
     (map (\<lambda>path_index.
             if path_index < n
             then fst (computeIntersections_thread E (pathSegments ! path_index) gs geoms_size
                         (intersections ! path_index))
             else intersections ! path_index)
          [0..<length intersections],
      map (\<lambda>path_index.
             if path_index < n
             then snd (computeIntersections_thread E (pathSegments ! path_index) gs geoms_size
                         (intersections ! path_index))
             else hasIntersection ! path_index)
          [0..<length hasIntersection])"

section \<open>Stream compaction\<close>

text \<open>
  \<^verbatim>\<open>thrust::remove_if(first, last, stencil, logical_not)\<close> as thrust documents it:
  the elements whose stencil is false are dropped, the others move to the front in
  their order, and the new end is returned. The elements behind the new end are left
  as they were.
\<close>

fun remove_if_kept :: "'a list \<Rightarrow> bool list \<Rightarrow> 'a list" where
  "remove_if_kept (x # xs) (s # ss) =
     (if \<not> s then remove_if_kept xs ss else x # remove_if_kept xs ss)"
| "remove_if_kept xs ss = []"

definition remove_if :: "'a list \<Rightarrow> nat \<Rightarrow> bool list \<Rightarrow> 'a list \<times> nat" where
  "remove_if arr n stencil =
     (let kept = remove_if_kept (take n arr) (take n stencil)
      in (kept @ drop (length kept) arr, length kept))"

text \<open>
  The two calls of the loop body: the same range, the same stencil and the same
  predicate for the intersections and for the paths; the new count is taken from the
  end of the intersections.
\<close>

definition stream_compaction ::
  "ShadeableIntersection list \<Rightarrow> PathSegment list \<Rightarrow> bool list \<Rightarrow> nat
     \<Rightarrow> ShadeableIntersection list \<times> PathSegment list \<times> nat" where
  "stream_compaction intersections pathSegments hasIntersection n =
     (let intersections_end = remove_if intersections n hasIntersection;
          paths_end = remove_if pathSegments n hasIntersection
      in (fst intersections_end, fst paths_end, snd intersections_end))"

section \<open>Sorting by material\<close>

text \<open>
  \<^verbatim>\<open>getMaterialId\<close> reads \<^verbatim>\<open>isecs->materialId\<close>, the record at the head of the
  array, in every thread, and stores it as an \<^verbatim>\<open>unsigned char\<close>.
\<close>

definition getMaterialId :: "nat \<Rightarrow> ShadeableIntersection list \<Rightarrow> 8 word list" where
  "getMaterialId nPaths isecs =
     map (\<lambda>index. (word_of_nat (materialId (isecs ! 0)) :: 8 word)) [0..<nPaths]"

text \<open>
  \<^verbatim>\<open>thrust::sort_by_key\<close> over the first \<open>n\<close> keys and values. On 8-bit keys thrust
  sorts by radix, which keeps equal keys in their order: a stable sort.
\<close>

definition sort_by_key :: "8 word list \<Rightarrow> nat \<Rightarrow> 'a list \<Rightarrow> 'a list" where
  "sort_by_key keys n vals =
     map snd (sort_key fst (zip keys (take n vals))) @ drop n vals"

section \<open>Shading\<close>

text \<open>The two locals of the scattering branch: the index of refraction and the colour handed to \<^verbatim>\<open>scatterRay\<close>.\<close>

definition m_indexOfRefraction :: "Material \<Rightarrow> nat \<Rightarrow> real" where
  "m_indexOfRefraction material iter =
     (if hasDispersion (dispersion material)
      then vget (Dispersion.indexOfRefraction (dispersion material)) (iter mod 3)
      else Material.indexOfRefraction material)"

definition m_color :: "Material \<Rightarrow> nat \<Rightarrow> vec3" where
  "m_color material iter =
     (if hasDispersion (dispersion material)
      then vset vzero (iter mod 3) (1.4 * vget (Material.color material) (iter mod 3))
      else Material.color material)"

definition shadeFakeMaterial_thread ::
  "'g env \<Rightarrow> nat \<Rightarrow> nat \<Rightarrow> ShadeableIntersection \<Rightarrow> PathSegment \<Rightarrow> Material list
     \<Rightarrow> PathSegment" where
  "shadeFakeMaterial_thread E iter idx intersection seg mats =
     (if remainingBounces seg = 0 then seg
      else
        let rng = makeSeededRandomEngine E (int iter) (int idx) 0;
            material = mats ! materialId intersection;
            materialColor = Material.color material
        in if emittance material > 0
           then seg\<lparr>PathSegment.color :=
                       vmul (PathSegment.color seg) (vscale materialColor (emittance material)),
                     remainingBounces := 0\<rparr>
           else
             let point = vadd (origin (ray seg))
                              (vscale (direction (ray seg)) (isec_t intersection))
             in scatterRay E seg point (surfaceNormal intersection)
                  (hasReflective material) (hasRefractive material)
                  (m_indexOfRefraction material iter) (m_color material iter)
                  (roughness material) rng)"

text \<open>
  The launch has \<open>nthreads\<close> threads. A thread at or beyond \<open>n\<close> blanks the colour of
  its element; such a write beyond the end of the array is not modelled.
\<close>

definition shadeFakeMaterial ::
  "'g env \<Rightarrow> nat \<Rightarrow> nat \<Rightarrow> nat \<Rightarrow> ShadeableIntersection list \<Rightarrow> PathSegment list
     \<Rightarrow> Material list \<Rightarrow> PathSegment list" where
  "shadeFakeMaterial E nthreads iter n shadeableIntersections pathSegments mats =
     map (\<lambda>idx.
            if idx < n
            then shadeFakeMaterial_thread E iter idx (shadeableIntersections ! idx)
                   (pathSegments ! idx) mats
            else if idx < nthreads
            then (pathSegments ! idx)\<lparr>PathSegment.color := vzero\<rparr>
            else pathSegments ! idx)
         [0..<length pathSegments]"

section \<open>Accumulation and output\<close>

text \<open>
  \<^verbatim>\<open>image[pixelIndex] += color\<close> for the first \<open>nPaths\<close> paths. The paths of one
  iteration have distinct pixel indices, so the order of the threads does not matter.
\<close>

definition finalGather :: "nat \<Rightarrow> vec3 list \<Rightarrow> PathSegment list \<Rightarrow> vec3 list" where
  "finalGather nPaths img iterationPaths =
     fold (\<lambda>iterationPath im.
             im[pixelIndex iterationPath :=
                  vadd (im ! pixelIndex iterationPath) (PathSegment.color iterationPath)])
          (take nPaths iterationPaths) img"



section \<open>Geometry update\<close>

definition geom_dT :: "'g env \<Rightarrow> nat \<Rightarrow> nat \<Rightarrow> real \<Rightarrow> real" where
  "geom_dT E iter index expo =
     u_real E 0 1
       (utilhash E (push_bit 31 1 OR word_of_int (int iter))
          XOR utilhash E (word_of_int (int index))) 0 * expo"

definition updateGeoms :: "'g env \<Rightarrow> nat \<Rightarrow> nat \<Rightarrow> 'g Geom list \<Rightarrow> real \<Rightarrow> 'g Geom list" where
  "updateGeoms E nGeoms iter gs expo =
     map (\<lambda>index.
            if index < nGeoms then geom_update E (gs ! index) (geom_dT E iter index expo)
            else gs ! index)
         [0..<length gs]"

section \<open>One iteration\<close>

text \<open>
  What ends the process instead of returning: \<^verbatim>\<open>checkCUDAError\<close> finding an error of the
  runtime (it prints and calls \<^verbatim>\<open>exit(EXIT_FAILURE)\<close>; the string is the message of the
  check that finds it), and the increment of a 32-bit \<^verbatim>\<open>int\<close> beyond \<^verbatim>\<open>INT_MAX\<close>, which
  C leaves undefined.
\<close>

datatype error = CUDA_error string | Signed_overflow

definition INT_MAX :: int where
  "INT_MAX = 2147483647"

text \<open>
  The CUDA runtime refuses a launch whose grid has no block (an invalid configuration):
  the kernel does not run, and the next \<^verbatim>\<open>checkCUDAError\<close> finds the error.
\<close>

definition launch_refused :: "nat \<Rightarrow> bool" where
  "launch_refused numblocks \<longleftrightarrow> numblocks = 0"

text \<open>
  The check \<^verbatim>\<open>checkCUDAError("trace one bounce")\<close> of a pass comes after two launches:
  \<^verbatim>\<open>updateGeoms\<close> over \<^verbatim>\<open>(geoms.size() + 127) / 128\<close> blocks and
  \<^verbatim>\<open>computeIntersections\<close> over \<^verbatim>\<open>(num_paths + 127) / 128\<close> blocks. The launches of
  \<^verbatim>\<open>getMaterialId\<close> and \<^verbatim>\<open>shadeFakeMaterial\<close> later in the pass use the second grid
  again, so they are accepted whenever this check is passed.
\<close>

definition trace_one_bounce_fails :: "'g Scene \<Rightarrow> 'g state \<Rightarrow> bool" where
  "trace_one_bounce_fails scene st \<longleftrightarrow>
     launch_refused ((length (geoms scene) + 128 - 1) div 128)
     \<or> launch_refused ((num_paths st + 128 - 1) div 128)"

text \<open>
  What one pass of the \<^verbatim>\<open>while\<close> loop of \<^verbatim>\<open>pathtrace\<close> does to the device buffers
  and the two locals when its launches are accepted: clearing the intersections, the
  geometry update, the intersection launch, the increment of the depth, compaction, the
  optional sort and the shading launch, whose grid is sized from the count before
  compaction. The loop below runs a pass only after the check of its launches and of
  the counter.
\<close>

definition depth_pass :: "'g env \<Rightarrow> 'g Scene \<Rightarrow> nat \<Rightarrow> 'g state \<Rightarrow> 'g state" where
  "depth_pass E scene iter st =
     (let cam = state_camera scene;
          blockSize1d = 128;
          cleared = replicate (pixelcount cam) zero_intersection;
          gs = updateGeoms E (length (geoms scene)) iter (dev_geoms st) (exposure cam);
          numblocksPathSegmentTracing = (num_paths st + blockSize1d - 1) div blockSize1d;
          traced = computeIntersections E (depth st) (num_paths st) (dev_paths st) gs
                     (length (geoms scene)) cleared (dev_hasIntersection st);
          flags = snd traced;
          compacted = stream_compaction (fst traced) (dev_paths st) flags (num_paths st);
          n = snd (snd compacted);
          isecs = (if SORT_BY_MATERIAL E
                   then sort_by_key (getMaterialId n (fst compacted)) n (fst compacted)
                   else fst compacted);
          paths = (if SORT_BY_MATERIAL E
                   then sort_by_key (getMaterialId n (fst compacted)) n (fst (snd compacted))
                   else fst (snd compacted))
      in st\<lparr>dev_geoms := gs,
            dev_paths := shadeFakeMaterial E (numblocksPathSegmentTracing * blockSize1d) iter n
                           isecs paths (materials scene),
            dev_intersections := isecs,
            dev_hasIntersection := flags,
            depth := depth st + 1,
            num_paths := n\<rparr>)"

text \<open>
  The loop itself. A pass begins with its launches, and the process ends there if one
  of them is refused; otherwise the pass runs, and the loop leaves when the depth counter
  equals the trace depth, and only then. The counter grows by one in every pass and is
  bounded by \<^verbatim>\<open>INT_MAX\<close>, so the loop always ends: with a state or with an error.
\<close>

function depth_loop ::
  "'g env \<Rightarrow> 'g Scene \<Rightarrow> nat \<Rightarrow> 'g state \<Rightarrow> error + 'g state" where
  "depth_loop E scene iter st =
     (if trace_one_bounce_fails scene st then Inl (CUDA_error ''trace one bounce'')
      else if INT_MAX \<le> depth st then Inl Signed_overflow
      else if depth (depth_pass E scene iter st) = state_traceDepth scene
      then Inr (depth_pass E scene iter st)
      else depth_loop E scene iter (depth_pass E scene iter st))"
  by pat_completeness auto
termination
  by (relation "measure (\<lambda>(E, scene, iter, st). nat (INT_MAX - depth st))")
     (auto simp: depth_pass_def Let_def)

declare depth_loop.simps [simp del]

definition camera_rays :: "'g env \<Rightarrow> 'g Scene \<Rightarrow> nat \<Rightarrow> 'g state \<Rightarrow> 'g state" where
  "camera_rays E scene iter st =
     st\<lparr>dev_paths := generateRayFromCamera E (state_camera scene) iter (state_traceDepth scene),
        depth := 0,
        num_paths := pixelcount (state_camera scene)\<rparr>"

text \<open>
  One call of \<^verbatim>\<open>pathtrace\<close>. The ray generation launch has a grid of
  \<^verbatim>\<open>(resolution + 7) / 8\<close> blocks in each direction, checked by
  \<^verbatim>\<open>checkCUDAError("generate camera ray")\<close>; once it is accepted there is a pixel, and
  the launches after the loop are accepted too. What the call shows and what it copies
  back to the host are functions of the image it leaves:
  \<open>sendImageToPBO iter (dev_image st')\<close> and \<open>dev_image st'\<close> itself, the un-normalised
  sums that a resumed session loads.
\<close>

definition pathtrace :: "'g env \<Rightarrow> 'g Scene \<Rightarrow> nat \<Rightarrow> 'g state \<Rightarrow> error + 'g state" where
  "pathtrace E scene iter st =
     (if launch_refused ((resolution_x (state_camera scene) + 8 - 1) div 8)
         \<or> launch_refused ((resolution_y (state_camera scene) + 8 - 1) div 8)
      then Inl (CUDA_error ''generate camera ray'')
      else case depth_loop E scene iter (camera_rays E scene iter st) of
             Inl e \<Rightarrow> Inl e
           | Inr st' \<Rightarrow>
               Inr (st'\<lparr>dev_image :=
                          finalGather (num_paths st') (dev_image st') (dev_paths st')\<rparr>))"



section \<open>Sample inputs\<close>

text \<open>
  A small concrete setting for evaluating the kernels: a primitive whose intersection
  test answers the distance stored in its \<open>shape\<close>, a scatter function that attenuates
  and spends one bounce, geometry that does not move, and a camera of one pixel.
\<close>

definition sample_env :: "real env" where
  "sample_env =
     \<lparr>utilhash = (\<lambda>w. w),
      u_real = (\<lambda>a b h k. a),
      boxIntersectionTest = (\<lambda>geom r. (shape geom, vzero, Vec3 0 0 1)),
      sphereIntersectionTest = (\<lambda>geom r. (shape geom, vzero, Vec3 0 1 0)),
      scatterRay = (\<lambda>seg point normal refl refr ior col rough rng.
                      seg\<lparr>PathSegment.color := vmul (PathSegment.color seg) col,
                          remainingBounces := remainingBounces seg - 1\<rparr>),
      geom_update = (\<lambda>geom dT. geom),
      SORT_BY_MATERIAL = False\<rparr>"

definition sample_camera :: Camera where
  "sample_camera =
     \<lparr>resolution_x = 1, resolution_y = 1, position = vzero, view = Vec3 0 0 1,
      up = Vec3 0 1 0, right = Vec3 1 0 0, pixelLength_x = 1, pixelLength_y = 1,
      exposure = 1\<rparr>"

definition sample_light :: Material where
  "sample_light =
     \<lparr>color = Vec3 1 1 1, emittance = 5, hasReflective = False, hasRefractive = False,
      indexOfRefraction = 1, roughness = 0,
      dispersion = \<lparr>hasDispersion = False, indexOfRefraction = Vec3 1 1 1\<rparr>\<rparr>"

definition sample_glass :: Material where
  "sample_glass =
     \<lparr>color = Vec3 1 1 1, emittance = 0, hasReflective = False, hasRefractive = True,
      indexOfRefraction = 1.5, roughness = 0,
      dispersion = \<lparr>hasDispersion = True, indexOfRefraction = Vec3 1.4 1.5 1.6\<rparr>\<rparr>"

definition sample_geom :: "real \<Rightarrow> nat \<Rightarrow> real Geom" where
  "sample_geom d mat = \<lparr>gtype = SPHERE, materialid = mat, shape = d\<rparr>"

text \<open>One emissive sphere in front of the camera, two bounces.\<close>

definition sample_scene :: "real Scene" where
  "sample_scene =
     \<lparr>state_camera = sample_camera, state_traceDepth = 2, state_image = [],
      geoms = [sample_geom 1 0], materials = [sample_light, sample_glass]\<rparr>"

text \<open>The same scene with its sphere out of the way: the test answers -1, a miss.\<close>

definition miss_scene :: "real Scene" where
  "miss_scene = sample_scene\<lparr>geoms := [sample_geom (- 1) 0]\<rparr>"

definition sample_path :: "nat \<Rightarrow> int \<Rightarrow> PathSegment" where
  "sample_path pix budget = blank_path\<lparr>pixelIndex := pix, remainingBounces := budget\<rparr>"

definition sample_isec :: "nat \<Rightarrow> ShadeableIntersection" where
  "sample_isec mat = \<lparr>isec_t = 1, surfaceNormal = Vec3 0 1 0, materialId = mat\<rparr>"

text \<open>Three primitives at distances 3, 2 and 2: the second is the first of the nearest.\<close>

definition three_geoms :: "real Geom list" where
  "three_geoms = [sample_geom 3 0, sample_geom 2 1, sample_geom 2 0]"

text \<open>
  Modelled from the spec: \<^verbatim>\<open>Geom::update\<close> is declared outside the file. The spec has
  it apply the primitive's own time-parameterised rule, linear motion for one, to the
  primitive in place. Here a primitive stores its distance and its speed, and an update
  moves it on from where it is.
\<close>

definition drift_env :: "(real \<times> real) env" where
  "drift_env =
     \<lparr>utilhash = (\<lambda>w. w),
      u_real = (\<lambda>a b h k. (a + b) / 2),
      boxIntersectionTest = (\<lambda>geom r. (fst (shape geom), vzero, Vec3 0 0 1)),
      sphereIntersectionTest = (\<lambda>geom r. (fst (shape geom), vzero, Vec3 0 1 0)),
      scatterRay = (\<lambda>seg point normal refl refr ior col rough rng.
                      seg\<lparr>PathSegment.color := vmul (PathSegment.color seg) col,
                          remainingBounces := remainingBounces seg - 1\<rparr>),
      geom_update = (\<lambda>geom dT.
                       geom\<lparr>shape := (fst (shape geom) + snd (shape geom) * dT,
                                      snd (shape geom))\<rparr>),
      SORT_BY_MATERIAL = False\<rparr>"

definition sample_dark :: Material where
  "sample_dark =
     \<lparr>color = Vec3 0 0 0, emittance = 0, hasReflective = False, hasRefractive = False,
      indexOfRefraction = 1, roughness = 1,
      dispersion = \<lparr>hasDispersion = False, indexOfRefraction = Vec3 1 1 1\<rparr>\<rparr>"

text \<open>
  A light at rest at distance 3 and, behind it at distance 5, a dark sphere that comes
  one unit nearer with every update (the exposure is 2 and the draw is 1/2).
\<close>

definition drift_scene :: "(real \<times> real) Scene" where
  "drift_scene =
     \<lparr>state_camera = sample_camera\<lparr>exposure := 2\<rparr>, state_traceDepth = 2, state_image = [],
      geoms = [\<lparr>gtype = SPHERE, materialid = 0, shape = (3, 0)\<rparr>,
               \<lparr>gtype = SPHERE, materialid = 1, shape = (5, - 1)\<rparr>],
      materials = [sample_light, sample_dark]\<rparr>"

text \<open>The state at the head of the depth loop in iteration 1, for both scenes.\<close>

definition sample_start :: "real state" where
  "sample_start = camera_rays sample_env sample_scene 1 (pathtraceInit sample_scene)"

definition miss_start :: "real state" where
  "miss_start = camera_rays sample_env miss_scene 1 (pathtraceInit miss_scene)"

lemmas sample_defs = sample_env_def sample_camera_def sample_light_def sample_glass_def
  sample_geom_def sample_scene_def miss_scene_def sample_path_def sample_isec_def
  sample_start_def miss_start_def three_geoms_def drift_env_def sample_dark_def drift_scene_def

lemmas kernel_defs = camera_rays_def pathtraceInit_def pixelcount_def generateRayFromCamera_def
  generateRayFromCamera_thread_def depth_pass_def computeIntersections_def
  computeIntersections_thread_def stream_compaction_def remove_if_def shadeFakeMaterial_def
  shadeFakeMaterial_thread_def updateGeoms_def intersectionTest_def FLT_MAX_def
  trace_one_bounce_fails_def launch_refused_def INT_MAX_def

section \<open>Stream compaction is a stable partition of both arrays\<close>

lemma remove_if_kept_zip: "remove_if_kept xs ss = map fst (filter snd (zip xs ss))"
  by (induction xs ss rule: remove_if_kept.induct) auto

lemma zip_take_nth:
  "n \<le> length xs \<Longrightarrow> n \<le> length ss \<Longrightarrow>
   zip (take n xs) (take n ss) = map (\<lambda>i. (xs ! i, ss ! i)) [0..<n]"
  by (rule nth_equalityI) auto

lemma remove_if_kept_index:
  assumes "n \<le> length xs" "n \<le> length ss"
  shows "remove_if_kept (take n xs) (take n ss) = map ((!) xs) (filter ((!) ss) [0..<n])"
  by (simp add: remove_if_kept_zip zip_take_nth [OF assms] filter_map o_def)

lemma remove_if_kept_length_le: "length (remove_if_kept xs ss) \<le> length xs"
  by (induction xs ss rule: remove_if_kept.induct) auto

lemma remove_if_length: "length (fst (remove_if arr n st)) = length arr"
  using remove_if_kept_length_le [of "take n arr" "take n st"]
  by (simp add: remove_if_def Let_def)


lemma remove_if_take:
  "take (snd (remove_if arr n st)) (fst (remove_if arr n st))
     = remove_if_kept (take n arr) (take n st)"
  by (simp add: remove_if_def Let_def)

text \<open>
  C1. Compaction of the first \<open>n\<close> paths and intersection records by the flags: the
  survivors are exactly the positions below \<open>n\<close> whose flag is true, in increasing
  order; the new front of each array lists the old elements at those positions, the
  same positions for both arrays, so element \<open>j\<close> of the paths and element \<open>j\<close> of
  the intersections still belong together; and the new count is the number of
  survivors.
\<close>

theorem stream_compaction_stable_lockstep:
  assumes "n \<le> length intersections" and "n \<le> length pathSegments"
    and "n \<le> length hasIntersection"
  shows "case stream_compaction intersections pathSegments hasIntersection n of
           (isecs', paths', n') \<Rightarrow>
             let survivors = filter ((!) hasIntersection) [0..<n] in
               set survivors = {i. i < n \<and> hasIntersection ! i}
               \<and> sorted_wrt (<) survivors
               \<and> n' = length survivors
               \<and> take n' isecs' = map ((!) intersections) survivors
               \<and> take n' paths' = map ((!) pathSegments) survivors
               \<and> length isecs' = length intersections
               \<and> length paths' = length pathSegments"
proof -
  let ?s = "filter ((!) hasIntersection) [0..<n]"
  let ?ri = "remove_if intersections n hasIntersection"
  let ?rp = "remove_if pathSegments n hasIntersection"
  have ki: "remove_if_kept (take n intersections) (take n hasIntersection)
              = map ((!) intersections) ?s"
    by (rule remove_if_kept_index [OF assms(1) assms(3)])
  have kp: "remove_if_kept (take n pathSegments) (take n hasIntersection)
              = map ((!) pathSegments) ?s"
    by (rule remove_if_kept_index [OF assms(2) assms(3)])
  have n1: "snd ?ri = length ?s" using ki by (simp add: remove_if_def Let_def)
  have n2: "snd ?ri = snd ?rp" using kp n1 by (simp add: remove_if_def Let_def)
  have t1: "take (snd ?ri) (fst ?ri) = map ((!) intersections) ?s"
    using remove_if_take [of intersections n hasIntersection] ki by simp
  have t2: "take (snd ?ri) (fst ?rp) = map ((!) pathSegments) ?s"
    unfolding n2 using remove_if_take [of pathSegments n hasIntersection] kp by simp
  have s1: "set ?s = {i. i < n \<and> hasIntersection ! i}" by auto
  have s2: "sorted_wrt (<) ?s" by (rule sorted_wrt_filter) simp
  show ?thesis
    unfolding stream_compaction_def Let_def using s1 s2 n1 t1 t2
    by (simp add: remove_if_length)
qed

theorem stream_compaction_stable_lockstep_witness:
  "case stream_compaction [sample_isec 0, sample_isec 1, sample_isec 2]
          [sample_path 0 2, sample_path 1 2, sample_path 2 2] [True, False, True] 3 of
     (isecs', paths', n') \<Rightarrow>
       let survivors = filter ((!) [True, False, True]) [0..<3] in
         set survivors = {i. i < 3 \<and> [True, False, True] ! i}
         \<and> sorted_wrt (<) survivors
         \<and> n' = length survivors
         \<and> take n' isecs' = map ((!) [sample_isec 0, sample_isec 1, sample_isec 2]) survivors
         \<and> take n' paths' = map ((!) [sample_path 0 2, sample_path 1 2, sample_path 2 2]) survivors
         \<and> length isecs' = length [sample_isec 0, sample_isec 1, sample_isec 2]
         \<and> length paths' = length [sample_path 0 2, sample_path 1 2, sample_path 2 2]"
  by (rule stream_compaction_stable_lockstep) simp_all


section \<open>The depth loop\<close>

lemma depth_pass_depth [simp]: "depth (depth_pass E scene iter st) = depth st + 1"
  by (simp add: depth_pass_def Let_def)

lemma depth_pass_image [simp]: "dev_image (depth_pass E scene iter st) = dev_image st"
  by (simp add: depth_pass_def Let_def)

lemma depth_pass_geoms:
  "dev_geoms (depth_pass E scene iter st) =
     updateGeoms E (length (geoms scene)) iter (dev_geoms st) (exposure (state_camera scene))"
  by (simp add: depth_pass_def Let_def)

lemma depth_funpow [simp]: "depth ((depth_pass E scene iter ^^ k) st) = depth st + int k"
  by (induction k) simp_all

lemma depth_loop_refused:
  "trace_one_bounce_fails scene st \<Longrightarrow>
   depth_loop E scene iter st = Inl (CUDA_error ''trace one bounce'')"
  by (subst depth_loop.simps) simp

lemma depth_loop_Inr:
  assumes "depth_loop E scene iter st = Inr st'"
  shows "depth st' = state_traceDepth scene
         \<and> (\<exists>k. st' = (depth_pass E scene iter ^^ Suc k) st)"
  using assms
proof (induction E scene iter st rule: depth_loop.induct)
  case (1 E scene iter st)
  from "1.prems" have ok: "\<not> trace_one_bounce_fails scene st" "\<not> INT_MAX \<le> depth st"
    by (subst (asm) depth_loop.simps, simp split: if_splits)+
  show ?case
  proof (cases "depth (depth_pass E scene iter st) = state_traceDepth scene")
    case True
    with "1.prems" ok have "st' = depth_pass E scene iter st"
      by (subst (asm) depth_loop.simps) simp
    then show ?thesis using True by (auto intro: exI [of _ 0])
  next
    case False
    with "1.prems" ok have "depth_loop E scene iter (depth_pass E scene iter st) = Inr st'"
      by (subst (asm) depth_loop.simps) simp
    from "1.IH" [OF ok False this] obtain k where
      d: "depth st' = state_traceDepth scene"
      and k: "st' = (depth_pass E scene iter ^^ Suc k) (depth_pass E scene iter st)"
      by blast
    have "st' = (depth_pass E scene iter ^^ Suc (Suc k)) st"
      unfolding k by (simp only: funpow_Suc_right o_apply)
    with d show ?thesis by blast
  qed
qed


text \<open>
  C2, evaluated on the code. The loop has one way to return, the depth counter meeting
  the trace depth, and no test of the active count. When a pass leaves no active path
  before that, the loop goes into the next pass, whose intersection launch has a grid
  of no block: the runtime refuses it and \<^verbatim>\<open>checkCUDAError("trace one bounce")\<close> ends
  the process.
\<close>

theorem depth_loop_aborts_on_empty_active_set:
  "(num_paths st = 0 \<longrightarrow>
      depth_loop E scene iter st = Inl (CUDA_error ''trace one bounce''))
   \<and> (depth_loop E scene iter st = Inr st' \<longrightarrow> depth st' = state_traceDepth scene)"
  using depth_loop_Inr [of E scene iter st st']
  by (simp add: depth_loop_refused trace_one_bounce_fails_def launch_refused_def)

theorem depth_loop_aborts_on_empty_active_set_witness:
  "num_paths (depth_pass sample_env miss_scene 1 miss_start) = 0
   \<and> depth (depth_pass sample_env miss_scene 1 miss_start) = 1
   \<and> state_traceDepth miss_scene = 2
   \<and> depth_loop sample_env miss_scene 1 (depth_pass sample_env miss_scene 1 miss_start)
       = Inl (CUDA_error ''trace one bounce'')
   \<and> depth_loop sample_env miss_scene 1 miss_start = Inl (CUDA_error ''trace one bounce'')
   \<and> pathtrace sample_env miss_scene 1 (pathtraceInit miss_scene)
       = Inl (CUDA_error ''trace one bounce'')"
proof -
  let ?st1 = "depth_pass sample_env miss_scene 1 miss_start"
  have n: "num_paths ?st1 = 0"
    by (simp add: kernel_defs sample_defs Let_def)
  have d: "depth miss_start = 0" "state_traceDepth miss_scene = 2"
    by (simp_all add: sample_defs camera_rays_def)
  have ok: "\<not> trace_one_bounce_fails miss_scene miss_start"
    by (simp add: kernel_defs sample_defs)
  have a: "depth_loop sample_env miss_scene 1 ?st1 = Inl (CUDA_error ''trace one bounce'')"
    using depth_loop_aborts_on_empty_active_set [of ?st1 sample_env miss_scene 1] n by simp
  have b: "depth_loop sample_env miss_scene 1 miss_start = depth_loop sample_env miss_scene 1 ?st1"
    using ok d by (subst depth_loop.simps) (simp add: INT_MAX_def)
  have c: "pathtrace sample_env miss_scene 1 (pathtraceInit miss_scene)
             = Inl (CUDA_error ''trace one bounce'')"
    using a b by (simp add: pathtrace_def launch_refused_def miss_start_def [symmetric])
       (simp add: sample_defs)
  show ?thesis using n d a b c by simp
qed





section \<open>Geometry update\<close>

lemma updateGeoms_length [simp]: "length (updateGeoms E nGeoms iter gs expo) = length gs"
  by (simp add: updateGeoms_def)

lemma depth_pass_geoms_length [simp]:
  "length (dev_geoms (depth_pass E scene iter st)) = length (dev_geoms st)"
  by (simp add: depth_pass_geoms)

lemma funpow_geoms_length [simp]:
  "length (dev_geoms ((depth_pass E scene iter ^^ k) st)) = length (dev_geoms st)"
  by (induction k) simp_all

text \<open>
  C10. After \<open>k\<close> passes of the depth loop of one iteration, primitive \<open>index\<close> is
  its update rule applied \<open>k\<close> times with one and the same time offset
  \<open>geom_dT E iter index exposure\<close>, which is computed from the iteration index and the
  primitive index and from nothing else: no pass draws a fresh offset.
\<close>

theorem geometry_update_same_dT_every_pass:
  assumes "index < length (dev_geoms st)" and "index < length (geoms scene)"
  shows "dev_geoms ((depth_pass E scene iter ^^ k) st) ! index =
           ((\<lambda>geom. geom_update E geom (geom_dT E iter index (exposure (state_camera scene)))) ^^ k)
             (dev_geoms st ! index)"
proof (induction k)
  case 0
  then show ?case by simp
next
  case (Suc k)
  then show ?case using assms by (simp add: depth_pass_geoms updateGeoms_def)
qed

theorem geometry_update_same_dT_every_pass_witness:
  "dev_geoms ((depth_pass sample_env sample_scene 1 ^^ 2) sample_start) ! 0 =
           ((\<lambda>geom. geom_update sample_env geom (geom_dT sample_env 1 0 (exposure (state_camera sample_scene)))) ^^ 2)
             (dev_geoms sample_start ! 0)"
  by (rule geometry_update_same_dT_every_pass) (simp_all add: sample_defs camera_rays_def pathtraceInit_def Let_def)


section \<open>Intersection keeps the first nearest hit\<close>

lemma geoms_loop_cases:
  "geoms_loop E r gs i (tm, h, nrm) = (tm', h', nrm') \<Longrightarrow>
   (tm' = tm \<and> h' = h \<and> nrm' = nrm
      \<and> (\<forall>j<length gs. \<not> (0 < fst (intersectionTest E (gs ! j) r)
                               \<and> fst (intersectionTest E (gs ! j) r) < tm)))
   \<or> (\<exists>k<length gs.
         tm' = fst (intersectionTest E (gs ! k) r) \<and> h' = int (i + k)
         \<and> nrm' = snd (snd (intersectionTest E (gs ! k) r))
         \<and> 0 < tm' \<and> tm' < tm
         \<and> (\<forall>j<length gs. 0 < fst (intersectionTest E (gs ! j) r)
                \<longrightarrow> tm' \<le> fst (intersectionTest E (gs ! j) r))
         \<and> (\<forall>j<k. 0 < fst (intersectionTest E (gs ! j) r)
                \<longrightarrow> tm' < fst (intersectionTest E (gs ! j) r)))"
proof (induction gs arbitrary: i tm h nrm)
  case Nil
  then show ?case by simp
next
  case (Cons g gs)
  obtain t p n where tst: "intersectionTest E g r = (t, p, n)"
    by (cases "intersectionTest E g r") auto
  show ?case
  proof (cases "0 < t \<and> t < tm")
    case True
    with Cons.prems tst have run: "geoms_loop E r gs (Suc i) (t, int i, n) = (tm', h', nrm')"
      by simp
    from Cons.IH [OF run] show ?thesis
    proof (elim disjE exE conjE)
      assume "tm' = t" "h' = int i" "nrm' = n"
        and none: "\<forall>j<length gs. \<not> (0 < fst (intersectionTest E (gs ! j) r)
                               \<and> fst (intersectionTest E (gs ! j) r) < t)"
      then have "0 < length (g # gs) \<and> tm' = fst (intersectionTest E ((g # gs) ! 0) r) \<and> h' = int (i + 0)
         \<and> nrm' = snd (snd (intersectionTest E ((g # gs) ! 0) r))
         \<and> 0 < tm' \<and> tm' < tm
         \<and> (\<forall>j<length (g # gs). 0 < fst (intersectionTest E ((g # gs) ! j) r)
                \<longrightarrow> tm' \<le> fst (intersectionTest E ((g # gs) ! j) r))
         \<and> (\<forall>j<0. 0 < fst (intersectionTest E ((g # gs) ! j) r)
                \<longrightarrow> tm' < fst (intersectionTest E ((g # gs) ! j) r))"
        using True tst by (auto simp: nth_Cons split: nat.splits) 
      then show ?thesis by blast
    next
      fix k
      assume k: "k < length gs" "tm' = fst (intersectionTest E (gs ! k) r)" "h' = int (Suc i + k)"
        "nrm' = snd (snd (intersectionTest E (gs ! k) r))" "0 < tm'" "tm' < t"
        and le: "\<forall>j<length gs. 0 < fst (intersectionTest E (gs ! j) r)
                \<longrightarrow> tm' \<le> fst (intersectionTest E (gs ! j) r)"
        and lt: "\<forall>j<k. 0 < fst (intersectionTest E (gs ! j) r)
                \<longrightarrow> tm' < fst (intersectionTest E (gs ! j) r)"
      have "Suc k < length (g # gs) \<and> tm' = fst (intersectionTest E ((g # gs) ! Suc k) r) \<and> h' = int (i + Suc k)
         \<and> nrm' = snd (snd (intersectionTest E ((g # gs) ! Suc k) r))
         \<and> 0 < tm' \<and> tm' < tm
         \<and> (\<forall>j<length (g # gs). 0 < fst (intersectionTest E ((g # gs) ! j) r)
                \<longrightarrow> tm' \<le> fst (intersectionTest E ((g # gs) ! j) r))
         \<and> (\<forall>j<Suc k. 0 < fst (intersectionTest E ((g # gs) ! j) r)
                \<longrightarrow> tm' < fst (intersectionTest E ((g # gs) ! j) r))"
        using True tst k le lt by (auto simp: nth_Cons split: nat.splits)
      then show ?thesis by blast
    qed
  next
    case False
    with Cons.prems tst have run: "geoms_loop E r gs (Suc i) (tm, h, nrm) = (tm', h', nrm')"
      by auto
    from Cons.IH [OF run] show ?thesis
    proof (elim disjE exE conjE)
      assume "tm' = tm" "h' = h" "nrm' = nrm"
        and none: "\<forall>j<length gs. \<not> (0 < fst (intersectionTest E (gs ! j) r)
                               \<and> fst (intersectionTest E (gs ! j) r) < tm)"
      then have "tm' = tm \<and> h' = h \<and> nrm' = nrm
      \<and> (\<forall>j<length (g # gs). \<not> (0 < fst (intersectionTest E ((g # gs) ! j) r)
                               \<and> fst (intersectionTest E ((g # gs) ! j) r) < tm))"
        using False tst by (auto simp: nth_Cons split: nat.splits)
      then show ?thesis by blast
    next
      fix k
      assume k: "k < length gs" "tm' = fst (intersectionTest E (gs ! k) r)" "h' = int (Suc i + k)"
        "nrm' = snd (snd (intersectionTest E (gs ! k) r))" "0 < tm'" "tm' < tm"
        and le: "\<forall>j<length gs. 0 < fst (intersectionTest E (gs ! j) r)
                \<longrightarrow> tm' \<le> fst (intersectionTest E (gs ! j) r)"
        and lt: "\<forall>j<k. 0 < fst (intersectionTest E (gs ! j) r)
                \<longrightarrow> tm' < fst (intersectionTest E (gs ! j) r)"
      have "Suc k < length (g # gs) \<and> tm' = fst (intersectionTest E ((g # gs) ! Suc k) r) \<and> h' = int (i + Suc k)
         \<and> nrm' = snd (snd (intersectionTest E ((g # gs) ! Suc k) r))
         \<and> 0 < tm' \<and> tm' < tm
         \<and> (\<forall>j<length (g # gs). 0 < fst (intersectionTest E ((g # gs) ! j) r)
                \<longrightarrow> tm' \<le> fst (intersectionTest E ((g # gs) ! j) r))
         \<and> (\<forall>j<Suc k. 0 < fst (intersectionTest E ((g # gs) ! j) r)
                \<longrightarrow> tm' < fst (intersectionTest E ((g # gs) ! j) r))"
        using False tst k le lt by (auto simp: nth_Cons split: nat.splits)
      then show ?thesis by blast
    qed
  qed
qed

lemma computeIntersections_nth:
  assumes "path_index < n" and "n \<le> length intersections" and "n \<le> length hasIntersection"
  shows "(fst (computeIntersections E dpth n pathSegments gs geoms_size intersections hasIntersection)
            ! path_index,
          snd (computeIntersections E dpth n pathSegments gs geoms_size intersections hasIntersection)
            ! path_index)
         = computeIntersections_thread E (pathSegments ! path_index) gs geoms_size
             (intersections ! path_index)"
  using assms by (simp add: computeIntersections_def)

lemma computeIntersections_thread_hit:
  assumes "geoms_size \<le> length gs"
    and "computeIntersections_thread E seg gs geoms_size isec = (isec', flag)"
  shows "if \<exists>j<geoms_size. 0 < fst (intersectionTest E (gs ! j) (ray seg))
                      \<and> fst (intersectionTest E (gs ! j) (ray seg)) < FLT_MAX
         then \<exists>k<geoms_size.
                flag
                \<and> isec' = isec\<lparr>isec_t := fst (intersectionTest E (gs ! k) (ray seg)),
                                materialId := materialid (gs ! k),
                                surfaceNormal := snd (snd (intersectionTest E (gs ! k) (ray seg)))\<rparr>
                \<and> 0 < fst (intersectionTest E (gs ! k) (ray seg))
                \<and> fst (intersectionTest E (gs ! k) (ray seg)) < FLT_MAX
                \<and> (\<forall>j<geoms_size. 0 < fst (intersectionTest E (gs ! j) (ray seg))
                      \<longrightarrow> fst (intersectionTest E (gs ! k) (ray seg))
                            \<le> fst (intersectionTest E (gs ! j) (ray seg)))
                \<and> (\<forall>j<k. 0 < fst (intersectionTest E (gs ! j) (ray seg))
                      \<longrightarrow> fst (intersectionTest E (gs ! k) (ray seg))
                            < fst (intersectionTest E (gs ! j) (ray seg)))
         else \<not> flag \<and> isec' = isec\<lparr>isec_t := - 1\<rparr>"
proof -
  obtain tm h nrm where run:
    "geoms_loop E (ray seg) (take geoms_size gs) 0 (FLT_MAX, - 1, vzero) = (tm, h, nrm)"
    by (cases "geoms_loop E (ray seg) (take geoms_size gs) 0 (FLT_MAX, - 1, vzero)") auto
  have len: "length (take geoms_size gs) = geoms_size" using assms(1) by simp
  have nth: "\<And>j. j < geoms_size \<Longrightarrow> take geoms_size gs ! j = gs ! j" by simp
  from geoms_loop_cases [OF run] show ?thesis
  proof (elim disjE exE conjE)
    assume "tm = FLT_MAX" "h = - 1" "nrm = vzero"
      and "\<forall>j<length (take geoms_size gs).
             \<not> (0 < fst (intersectionTest E (take geoms_size gs ! j) (ray seg))
                \<and> fst (intersectionTest E (take geoms_size gs ! j) (ray seg)) < FLT_MAX)"
    then show ?thesis using assms run by (auto simp: computeIntersections_thread_def)
  next
    fix k
    assume k: "k < length (take geoms_size gs)"
      "tm = fst (intersectionTest E (take geoms_size gs ! k) (ray seg))"
      "h = int (0 + k)"
      "nrm = snd (snd (intersectionTest E (take geoms_size gs ! k) (ray seg)))"
      "0 < tm" "tm < FLT_MAX"
      and le: "\<forall>j<length (take geoms_size gs).
                0 < fst (intersectionTest E (take geoms_size gs ! j) (ray seg))
                \<longrightarrow> tm \<le> fst (intersectionTest E (take geoms_size gs ! j) (ray seg))"
      and lt: "\<forall>j<k. 0 < fst (intersectionTest E (take geoms_size gs ! j) (ray seg))
                \<longrightarrow> tm < fst (intersectionTest E (take geoms_size gs ! j) (ray seg))"
    have kk: "k < geoms_size" using k(1) by simp
    have ex: "\<exists>j<geoms_size. 0 < fst (intersectionTest E (gs ! j) (ray seg))
                      \<and> fst (intersectionTest E (gs ! j) (ray seg)) < FLT_MAX"
      using k kk by (intro exI [of _ k]) simp
    have res: "flag \<and> isec' = isec\<lparr>isec_t := fst (intersectionTest E (gs ! k) (ray seg)),
                                materialId := materialid (gs ! k),
                                surfaceNormal := snd (snd (intersectionTest E (gs ! k) (ray seg)))\<rparr>"
      using assms(2) run k kk by (auto simp: computeIntersections_thread_def)
    have le': "\<forall>j<geoms_size. 0 < fst (intersectionTest E (gs ! j) (ray seg))
                      \<longrightarrow> fst (intersectionTest E (gs ! k) (ray seg))
                            \<le> fst (intersectionTest E (gs ! j) (ray seg))"
      using le k kk assms(1) by (auto simp: len)
    have lt': "\<forall>j<k. 0 < fst (intersectionTest E (gs ! j) (ray seg))
                      \<longrightarrow> fst (intersectionTest E (gs ! k) (ray seg))
                            < fst (intersectionTest E (gs ! j) (ray seg))"
      using lt k kk assms(1) by auto
    show ?thesis using ex res le' lt' k kk by (simp only: if_True) (intro exI [of _ k], simp)
  qed
qed

text \<open>
  C4, as the code has it. For an active path the kernel tests the primitives in list
  order and starts from \<^verbatim>\<open>t_min = FLT_MAX\<close>. If some primitive answers a distance above
  0 and below \<^verbatim>\<open>FLT_MAX\<close>, the flag is set and the record holds the distance, the
  normal and the material of a primitive \<open>k\<close> whose distance is the least of all
  positive distances and strictly below that of every earlier primitive with a
  positive distance: the first nearest one. Otherwise the flag is cleared and the
  distance is -1.
\<close>

theorem computeIntersections_nearest_hit:
  assumes "path_index < n" and "n \<le> length intersections" and "n \<le> length hasIntersection"
    and "geoms_size \<le> length gs"
  shows "case computeIntersections E dpth n pathSegments gs geoms_size intersections hasIntersection of
           (isecs', flags') \<Rightarrow>
             let r = ray (pathSegments ! path_index);
                 isec = intersections ! path_index
             in if \<exists>j<geoms_size. 0 < fst (intersectionTest E (gs ! j) r)
                                 \<and> fst (intersectionTest E (gs ! j) r) < FLT_MAX
                then \<exists>k<geoms_size.
                       flags' ! path_index
                       \<and> isecs' ! path_index =
                           isec\<lparr>isec_t := fst (intersectionTest E (gs ! k) r),
                                 materialId := materialid (gs ! k),
                                 surfaceNormal := snd (snd (intersectionTest E (gs ! k) r))\<rparr>
                       \<and> 0 < fst (intersectionTest E (gs ! k) r)
                       \<and> fst (intersectionTest E (gs ! k) r) < FLT_MAX
                       \<and> (\<forall>j<geoms_size. 0 < fst (intersectionTest E (gs ! j) r)
                             \<longrightarrow> fst (intersectionTest E (gs ! k) r)
                                   \<le> fst (intersectionTest E (gs ! j) r))
                       \<and> (\<forall>j<k. 0 < fst (intersectionTest E (gs ! j) r)
                             \<longrightarrow> fst (intersectionTest E (gs ! k) r)
                                   < fst (intersectionTest E (gs ! j) r))
                else \<not> flags' ! path_index \<and> isecs' ! path_index = isec\<lparr>isec_t := - 1\<rparr>"
proof -
  let ?c = "computeIntersections E dpth n pathSegments gs geoms_size intersections hasIntersection"
  have "computeIntersections_thread E (pathSegments ! path_index) gs geoms_size
          (intersections ! path_index) = (fst ?c ! path_index, snd ?c ! path_index)"
    by (rule computeIntersections_nth [OF assms(1-3), symmetric])
  from computeIntersections_thread_hit [OF assms(4) this]
  show ?thesis by (simp add: case_prod_beta Let_def)
qed

theorem computeIntersections_nearest_hit_witness:
  "computeIntersections sample_env 0 1 [sample_path 0 2] three_geoms 3 [zero_intersection] [False]
   = ([\<lparr>isec_t = 2, surfaceNormal = Vec3 0 1 0, materialId = 1\<rparr>], [True])
   \<and> (case computeIntersections sample_env 0 1 [sample_path 0 2] three_geoms 3
              [zero_intersection] [False] of
           (isecs', flags') \<Rightarrow>
             let r = ray ([sample_path 0 2] ! 0);
                 isec = [zero_intersection] ! 0
             in if \<exists>j<3. 0 < fst (intersectionTest sample_env (three_geoms ! j) r)
                                 \<and> fst (intersectionTest sample_env (three_geoms ! j) r) < FLT_MAX
                then \<exists>k<3.
                       flags' ! 0
                       \<and> isecs' ! 0 =
                           isec\<lparr>isec_t := fst (intersectionTest sample_env (three_geoms ! k) r),
                                 materialId := materialid (three_geoms ! k),
                                 surfaceNormal := snd (snd (intersectionTest sample_env (three_geoms ! k) r))\<rparr>
                       \<and> 0 < fst (intersectionTest sample_env (three_geoms ! k) r)
                       \<and> fst (intersectionTest sample_env (three_geoms ! k) r) < FLT_MAX
                       \<and> (\<forall>j<3. 0 < fst (intersectionTest sample_env (three_geoms ! j) r)
                             \<longrightarrow> fst (intersectionTest sample_env (three_geoms ! k) r)
                                   \<le> fst (intersectionTest sample_env (three_geoms ! j) r))
                       \<and> (\<forall>j<k. 0 < fst (intersectionTest sample_env (three_geoms ! j) r)
                             \<longrightarrow> fst (intersectionTest sample_env (three_geoms ! k) r)
                                   < fst (intersectionTest sample_env (three_geoms ! j) r))
                else \<not> flags' ! 0 \<and> isecs' ! 0 = isec\<lparr>isec_t := - 1\<rparr>)"
proof
  show "computeIntersections sample_env 0 1 [sample_path 0 2] three_geoms 3
          [zero_intersection] [False]
   = ([\<lparr>isec_t = 2, surfaceNormal = Vec3 0 1 0, materialId = 1\<rparr>], [True])"
    by (simp add: kernel_defs sample_defs zero_intersection_def)
qed (rule computeIntersections_nearest_hit, simp_all add: three_geoms_def)

text \<open>
  C4 as stated fails at the bound: a primitive answering exactly \<^verbatim>\<open>FLT_MAX\<close> has a
  positive hit distance, yet the comparison \<^verbatim>\<open>t_min > t\<close> rejects it and the path is
  marked as not intersecting.
\<close>

theorem hit_at_FLT_MAX_is_dropped:
  "0 < fst (intersectionTest sample_env (sample_geom FLT_MAX 0) (ray (sample_path 0 2)))
   \<and> computeIntersections sample_env 0 1 [sample_path 0 2] [sample_geom FLT_MAX 0] 1
       [zero_intersection] [True]
     = ([zero_intersection\<lparr>isec_t := - 1\<rparr>], [False])"
  by (simp add: kernel_defs sample_defs)


section \<open>Shading\<close>

lemma shadeFakeMaterial_nth:
  "idx < n \<Longrightarrow> n \<le> length pathSegments \<Longrightarrow>
   shadeFakeMaterial E nthreads iter n shadeableIntersections pathSegments mats ! idx
     = shadeFakeMaterial_thread E iter idx (shadeableIntersections ! idx) (pathSegments ! idx) mats"
  by (simp add: shadeFakeMaterial_def)

text \<open>
  C5. In the shading launch, an active path with a positive budget whose hit material
  has a positive emittance gets its colour multiplied by the material colour times the
  emittance and its budget set to 0, and is otherwise unchanged; an active path whose
  budget is 0 is left exactly as it is.
\<close>

theorem shadeFakeMaterial_light_and_spent:
  assumes "idx < n" and "n \<le> length pathSegments" and "n \<le> length shadeableIntersections"
    and "materialId (shadeableIntersections ! idx) < length mats"
  shows "let seg = pathSegments ! idx;
             material = mats ! materialId (shadeableIntersections ! idx);
             seg' = shadeFakeMaterial E nthreads iter n shadeableIntersections pathSegments mats ! idx
         in (0 < remainingBounces seg \<and> 0 < emittance material \<longrightarrow>
               seg' = seg\<lparr>PathSegment.color :=
                            vmul (PathSegment.color seg)
                                 (vscale (Material.color material) (emittance material)),
                          remainingBounces := 0\<rparr>)
            \<and> (remainingBounces seg = 0 \<longrightarrow> seg' = seg)"
  using assms by (simp add: shadeFakeMaterial_nth shadeFakeMaterial_thread_def Let_def)

theorem shadeFakeMaterial_light_and_spent_witness:
  "shadeFakeMaterial sample_env 128 1 2 [sample_isec 0, sample_isec 0]
     [sample_path 0 2, sample_path 1 0] [sample_light, sample_glass] ! 0
   = (sample_path 0 2)\<lparr>PathSegment.color :=
                          vmul (PathSegment.color (sample_path 0 2))
                               (vscale (Material.color sample_light) (emittance sample_light)),
                        remainingBounces := 0\<rparr>
   \<and> shadeFakeMaterial sample_env 128 1 2 [sample_isec 0, sample_isec 0]
     [sample_path 0 2, sample_path 1 0] [sample_light, sample_glass] ! 1
   = sample_path 1 0"
  using shadeFakeMaterial_light_and_spent [of 0 2 "[sample_path 0 2, sample_path 1 0]"
      "[sample_isec 0, sample_isec 0]" "[sample_light, sample_glass]" sample_env 128 1]
    shadeFakeMaterial_light_and_spent [of 1 2 "[sample_path 0 2, sample_path 1 0]"
      "[sample_isec 0, sample_isec 0]" "[sample_light, sample_glass]" sample_env 128 1]
  by (simp add: Let_def sample_isec_def sample_path_def sample_light_def)

lemma mod3_cases: "(iter::nat) mod 3 = 0 \<or> iter mod 3 = 1 \<or> iter mod 3 = 2"
  by arith

lemma m_color_channels:
  assumes "hasDispersion (dispersion material)" and "ch < 3"
  shows "vget (m_color material iter) ch
           = (if ch = iter mod 3 then 1.4 * vget (Material.color material) ch else 0)"
  using assms mod3_cases [of iter]
  by (cases "Material.color material") (auto simp: m_color_def vzero_def)

lemma m_color_three_iterations:
  assumes "hasDispersion (dispersion material)"
  shows "vadd (vadd (m_color material iter) (m_color material (iter + 1)))
              (m_color material (iter + 2))
           = vscale (Material.color material) 1.4"
proof -
  obtain a b c where col: "Material.color material = Vec3 a b c"
    by (cases "Material.color material") auto
  consider (r) "iter mod 3 = 0" "(iter + 1) mod 3 = 1" "(iter + 2) mod 3 = 2"
    | (g) "iter mod 3 = 1" "(iter + 1) mod 3 = 2" "(iter + 2) mod 3 = 0"
    | (b) "iter mod 3 = 2" "(iter + 1) mod 3 = 0" "(iter + 2) mod 3 = 1"
  proof -
    have "(iter mod 3 = 0 \<and> (iter + 1) mod 3 = 1 \<and> (iter + 2) mod 3 = 2)
          \<or> (iter mod 3 = 1 \<and> (iter + 1) mod 3 = 2 \<and> (iter + 2) mod 3 = 0)
          \<or> (iter mod 3 = 2 \<and> (iter + 1) mod 3 = 0 \<and> (iter + 2) mod 3 = 1)"
      by presburger
    then show ?thesis by (elim disjE conjE) (erule (2) r g b)+
  qed
  then show ?thesis
  proof cases
    case r
    then show ?thesis unfolding m_color_def by (simp only: assms if_True r col) (simp add: vzero_def)
  next
    case g
    then show ?thesis unfolding m_color_def by (simp only: assms if_True g col) (simp add: vzero_def)
  next
    case b
    then show ?thesis unfolding m_color_def by (simp only: assms if_True b col) (simp add: vzero_def)
  qed
qed

text \<open>
  C6, as the code has it. For a material with dispersion, the shader takes the index of
  refraction of channel \<open>iter mod 3\<close> and hands \<^verbatim>\<open>scatterRay\<close> a colour that is 1.4
  times the base colour in that channel and 0 in the other two. Over three consecutive
  iterations these colours add up to 1.4 times the base colour, so their average is
  1.4 / 3 of it.
\<close>

theorem dispersion_channel_and_scale:
  assumes "hasDispersion (dispersion material)"
  shows "m_indexOfRefraction material iter
           = vget (Dispersion.indexOfRefraction (dispersion material)) (iter mod 3)
         \<and> (\<forall>ch<3. vget (m_color material iter) ch
                      = (if ch = iter mod 3 then 1.4 * vget (Material.color material) ch else 0))
         \<and> vadd (vadd (m_color material iter) (m_color material (iter + 1)))
                 (m_color material (iter + 2))
             = vscale (Material.color material) 1.4
         \<and> (\<forall>E idx isec seg mats.
               remainingBounces seg \<noteq> 0 \<and> mats ! materialId isec = material
               \<and> \<not> 0 < emittance material \<longrightarrow>
               shadeFakeMaterial_thread E iter idx isec seg mats
                 = scatterRay E seg
                     (vadd (origin (ray seg)) (vscale (direction (ray seg)) (isec_t isec)))
                     (surfaceNormal isec) (hasReflective material) (hasRefractive material)
                     (m_indexOfRefraction material iter) (m_color material iter)
                     (roughness material) (makeSeededRandomEngine E (int iter) (int idx) 0))"
  using assms m_color_channels [OF assms] m_color_three_iterations [OF assms]
  by (auto simp: m_indexOfRefraction_def shadeFakeMaterial_thread_def Let_def)

theorem dispersion_channel_and_scale_witness:
  "m_indexOfRefraction sample_glass 4 = 1.5
   \<and> m_color sample_glass 4 = Vec3 0 1.4 0
   \<and> vadd (vadd (m_color sample_glass 4) (m_color sample_glass 5)) (m_color sample_glass 6)
       = Vec3 1.4 1.4 1.4"
  using dispersion_channel_and_scale [of sample_glass 4]
  by (simp add: sample_glass_def m_color_def m_indexOfRefraction_def vzero_def)

text \<open>
  C6 as stated fails in its last part: for the white dispersive material the average of
  the effective colours of iterations 0, 1 and 2 is not the base colour.
\<close>

theorem dispersion_average_is_not_base_color:
  "vscale (vadd (vadd (m_color sample_glass 0) (m_color sample_glass 1)) (m_color sample_glass 2))
          (1 / 3)
     \<noteq> Material.color sample_glass"
  by (simp add: sample_glass_def m_color_def vzero_def)

lemma computeIntersections_depth:
  "computeIntersections E d1 n pathSegments gs geoms_size intersections hasIntersection
     = computeIntersections E d2 n pathSegments gs geoms_size intersections hasIntersection"
  by (simp add: computeIntersections_def)

text \<open>
  C7, evaluated on the code. The shading launch is not given the depth: the paths a pass
  leaves are the same whatever the depth counter is, and the stream handed to
  \<^verbatim>\<open>scatterRay\<close> is seeded from the iteration index and the slot \<open>idx\<close> of the path
  in the compacted array, with 0 in the place of the depth.
\<close>

theorem shading_stream_ignores_depth:
  "dev_paths (depth_pass E scene iter (st\<lparr>depth := d1\<rparr>))
     = dev_paths (depth_pass E scene iter (st\<lparr>depth := d2\<rparr>))
   \<and> (\<forall>idx isec seg mats.
         remainingBounces seg \<noteq> 0 \<and> \<not> 0 < emittance (mats ! materialId isec) \<longrightarrow>
         shadeFakeMaterial_thread E iter idx isec seg mats
           = scatterRay E seg
               (vadd (origin (ray seg)) (vscale (direction (ray seg)) (isec_t isec)))
               (surfaceNormal isec) (hasReflective (mats ! materialId isec))
               (hasRefractive (mats ! materialId isec))
               (m_indexOfRefraction (mats ! materialId isec) iter)
               (m_color (mats ! materialId isec) iter)
               (roughness (mats ! materialId isec))
               (utilhash E (push_bit 31 1 OR word_of_int (int iter))
                  XOR utilhash E (word_of_int (int idx))))"
proof
  show "dev_paths (depth_pass E scene iter (st\<lparr>depth := d1\<rparr>))
     = dev_paths (depth_pass E scene iter (st\<lparr>depth := d2\<rparr>))"
    by (simp add: depth_pass_def Let_def computeIntersections_depth [of E d1 _ _ _ _ _ _ d2])
  show "\<forall>idx isec seg mats.
         remainingBounces seg \<noteq> 0 \<and> \<not> 0 < emittance (mats ! materialId isec) \<longrightarrow>
         shadeFakeMaterial_thread E iter idx isec seg mats
           = scatterRay E seg
               (vadd (origin (ray seg)) (vscale (direction (ray seg)) (isec_t isec)))
               (surfaceNormal isec) (hasReflective (mats ! materialId isec))
               (hasRefractive (mats ! materialId isec))
               (m_indexOfRefraction (mats ! materialId isec) iter)
               (m_color (mats ! materialId isec) iter)
               (roughness (mats ! materialId isec))
               (utilhash E (push_bit 31 1 OR word_of_int (int iter))
                  XOR utilhash E (word_of_int (int idx)))"
    by (simp add: shadeFakeMaterial_thread_def makeSeededRandomEngine_def Let_def)
qed

theorem shading_stream_ignores_depth_witness:
  "dev_paths (depth_pass sample_env sample_scene 1 (sample_start\<lparr>depth := 0\<rparr>))
     = dev_paths (depth_pass sample_env sample_scene 1 (sample_start\<lparr>depth := 1\<rparr>))
   \<and> shadeFakeMaterial_thread sample_env 1 0 (sample_isec 1) (sample_path 7 2)
         [sample_light, sample_glass]
       = scatterRay sample_env (sample_path 7 2)
               (vadd (origin (ray (sample_path 7 2)))
                     (vscale (direction (ray (sample_path 7 2))) (isec_t (sample_isec 1))))
               (surfaceNormal (sample_isec 1)) (hasReflective sample_glass)
               (hasRefractive sample_glass)
               (m_indexOfRefraction sample_glass 1)
               (m_color sample_glass 1)
               (roughness sample_glass)
               (utilhash sample_env (push_bit 31 1 OR 1) XOR utilhash sample_env 0)"
  using shading_stream_ignores_depth [where E = sample_env and scene = sample_scene and iter = 1
      and st = sample_start and ?d1.0 = 0 and ?d2.0 = 1]
  by (simp add: sample_isec_def sample_path_def sample_glass_def)


section \<open>Sorting by material\<close>

lemma sort_key_constant:
  "(\<And>x. x \<in> set xs \<Longrightarrow> f x = c) \<Longrightarrow> sort_key f xs = xs"
proof (induction xs)
  case Nil
  then show ?case by simp
next
  case (Cons x xs)
  then have "sort_key f xs = xs" by simp
  moreover have "insort_key f x xs = x # xs"
    using Cons.prems by (cases xs) simp_all
  ultimately show ?case by simp
qed

lemma getMaterialId_replicate:
  "getMaterialId n isecs = replicate n (word_of_nat (materialId (isecs ! 0)))"
  by (simp add: getMaterialId_def map_replicate_const)

lemma sort_by_key_getMaterialId: "sort_by_key (getMaterialId n isecs) n vals = vals"
proof -
  let ?z = "zip (getMaterialId n isecs) (take n vals)"
  have "\<And>x. x \<in> set ?z \<Longrightarrow> fst x = word_of_nat (materialId (isecs ! 0))"
    by (auto simp: getMaterialId_replicate dest: set_zip_leftD)
  then have "sort_key fst ?z = ?z" by (rule sort_key_constant)
  moreover have "map snd ?z = take n vals"
    by (simp add: map_snd_zip_take getMaterialId_def min_def)
  ultimately show ?thesis by (simp add: sort_by_key_def)
qed

lemma intersectionTest_switch [simp]:
  "intersectionTest (E\<lparr>SORT_BY_MATERIAL := b\<rparr>) = intersectionTest E"
  by (simp add: intersectionTest_def fun_eq_iff split: GeomType.splits)

lemma geoms_loop_switch [simp]:
  "geoms_loop (E\<lparr>SORT_BY_MATERIAL := b\<rparr>) r gs i acc = geoms_loop E r gs i acc"
  by (induction E r gs i acc rule: geoms_loop.induct) (simp_all split: prod.splits)

lemma computeIntersections_switch [simp]:
  "computeIntersections (E\<lparr>SORT_BY_MATERIAL := b\<rparr>) = computeIntersections E"
  by (simp add: computeIntersections_def computeIntersections_thread_def fun_eq_iff)

lemma updateGeoms_switch [simp]:
  "updateGeoms (E\<lparr>SORT_BY_MATERIAL := b\<rparr>) = updateGeoms E"
  by (simp add: updateGeoms_def geom_dT_def fun_eq_iff)

lemma shadeFakeMaterial_switch [simp]:
  "shadeFakeMaterial (E\<lparr>SORT_BY_MATERIAL := b\<rparr>) = shadeFakeMaterial E"
  by (simp add: shadeFakeMaterial_def shadeFakeMaterial_thread_def makeSeededRandomEngine_def
      fun_eq_iff Let_def)

lemma camera_rays_switch [simp]:
  "camera_rays (E\<lparr>SORT_BY_MATERIAL := b\<rparr>) = camera_rays E"
  by (simp add: camera_rays_def generateRayFromCamera_def generateRayFromCamera_thread_def
      makeSeededRandomEngine_def fun_eq_iff)

lemma depth_pass_switch:
  "depth_pass (E\<lparr>SORT_BY_MATERIAL := b\<rparr>) scene iter st
     = depth_pass (E\<lparr>SORT_BY_MATERIAL := False\<rparr>) scene iter st"
  by (simp add: depth_pass_def Let_def sort_by_key_getMaterialId)

lemma depth_loop_cong:
  assumes "\<And>st. depth_pass E scene iter st = depth_pass E' scene' iter st"
    and "state_traceDepth scene = state_traceDepth scene'"
    and "length (geoms scene) = length (geoms scene')"
  shows "depth_loop E scene iter st = depth_loop E' scene' iter st"
  using assms
proof (induction E' scene' iter st rule: depth_loop.induct)
  case (1 E' scene' iter st)
  have f: "trace_one_bounce_fails scene st = trace_one_bounce_fails scene' st"
    using "1.prems"(3) by (simp add: trace_one_bounce_fails_def)
  show ?case
  proof (cases "trace_one_bounce_fails scene' st \<or> INT_MAX \<le> depth st
                \<or> depth (depth_pass E' scene' iter st) = state_traceDepth scene'")
    case True
    then show ?thesis
      using f "1.prems"(1,2)
      by (subst depth_loop.simps, subst (2) depth_loop.simps) auto
  next
    case False
    then have "depth_loop E scene iter (depth_pass E' scene' iter st)
                 = depth_loop E' scene' iter (depth_pass E' scene' iter st)"
      using "1.prems" by (intro "1.IH") auto
    then show ?thesis
      using False f "1.prems"(1,2)
      by (subst depth_loop.simps, subst (2) depth_loop.simps) auto
  qed
qed

lemma depth_loop_switch:
  "depth_loop (E\<lparr>SORT_BY_MATERIAL := b\<rparr>) scene iter st
     = depth_loop (E\<lparr>SORT_BY_MATERIAL := False\<rparr>) scene iter st"
  by (rule depth_loop_cong) (simp_all add: depth_pass_switch [where b = b])

text \<open>
  C9. With \<^verbatim>\<open>SORT_BY_MATERIAL\<close> switched on, every pass of the depth loop, and so the
  whole iteration with the image it accumulates or the error that ends it, is the same
  as with the switch off.
  The keys of both sorts are the material id of the record at the head of the
  intersections, the same key for every slot, and a stable sort on equal keys moves
  nothing: paths and intersections stay where compaction put them, slot by slot.
\<close>

theorem material_sort_changes_nothing:
  "pathtrace (E\<lparr>SORT_BY_MATERIAL := True\<rparr>) scene iter st
     = pathtrace (E\<lparr>SORT_BY_MATERIAL := False\<rparr>) scene iter st
   \<and> depth_pass (E\<lparr>SORT_BY_MATERIAL := True\<rparr>) scene iter st
     = depth_pass (E\<lparr>SORT_BY_MATERIAL := False\<rparr>) scene iter st"
  by (simp add: pathtrace_def depth_loop_switch [where b = True] depth_pass_switch [where b = True])

theorem material_sort_changes_nothing_witness:
  "pathtrace (sample_env\<lparr>SORT_BY_MATERIAL := True\<rparr>) sample_scene 1 (pathtraceInit sample_scene)
     = pathtrace (sample_env\<lparr>SORT_BY_MATERIAL := False\<rparr>) sample_scene 1 (pathtraceInit sample_scene)
   \<and> depth_pass (sample_env\<lparr>SORT_BY_MATERIAL := True\<rparr>) sample_scene 1 (pathtraceInit sample_scene)
     = depth_pass (sample_env\<lparr>SORT_BY_MATERIAL := False\<rparr>) sample_scene 1 (pathtraceInit sample_scene)"
  by (rule material_sort_changes_nothing)


section \<open>Accumulation and resume\<close>


lemma vadd_vzero [simp]: "vadd a vzero = a"
  by (cases a) (simp add: vzero_def)

lemma fold_gather_length [simp]:
  "length (fold (\<lambda>p im. im[pixelIndex p := vadd (im ! pixelIndex p) (PathSegment.color p)]) ps img)
     = length img"
  by (induction ps arbitrary: img) simp_all

lemma finalGather_length [simp]: "length (finalGather n img ps) = length img"
  by (simp add: finalGather_def)





subsection \<open>The image buffer is only added to\<close>

lemma depth_pass_image_update:
  "depth_pass E scene iter (st\<lparr>dev_image := x\<rparr>) = (depth_pass E scene iter st)\<lparr>dev_image := x\<rparr>"
  by (simp add: depth_pass_def Let_def)


lemma funpow_image_update:
  "(depth_pass E scene iter ^^ k) (st\<lparr>dev_image := x\<rparr>)
     = ((depth_pass E scene iter ^^ k) st)\<lparr>dev_image := x\<rparr>"
  by (induction k) (simp_all add: depth_pass_image_update)

lemma funpow_image [simp]: "dev_image ((depth_pass E scene iter ^^ k) st) = dev_image st"
  by (induction k) simp_all




subsection \<open>An iteration does not depend on what earlier iterations left behind\<close>






subsection \<open>What a session keeps\<close>

lemma depth_pass_flags_length [simp]:
  "length (dev_hasIntersection (depth_pass E scene iter st)) = length (dev_hasIntersection st)"
  by (simp add: depth_pass_def Let_def computeIntersections_def)

lemma funpow_flags_length [simp]:
  "length (dev_hasIntersection ((depth_pass E scene iter ^^ k) st))
     = length (dev_hasIntersection st)"
  by (induction k) simp_all










subsection \<open>What of the scene an iteration reads\<close>


lemma camera_rays_scene [simp]:
  "camera_rays E (scene\<lparr>state_image := x, geoms := G\<rparr>) = camera_rays E scene"
  by (simp add: camera_rays_def fun_eq_iff)








end
